theory Spec2Isabelle
  imports Main
begin

section \<open>JavaScript values\<close>

text \<open>
  Every failure of the sources is \<^verbatim>\<open>throw new Error(msg)\<close> (or a promise rejected with
  \<^verbatim>\<open>new Error(msg)\<close>): a plain \<^verbatim>\<open>Error\<close> whose only payload is its message. A function
  that may throw returns \<open>js_error + 'a\<close>, with \<open>Inl\<close> the thrown error.
  Strings are lists of characters; \<open>None\<close> stands for \<^verbatim>\<open>undefined\<close>.
\<close>

datatype js_error = Error string

definition dq :: string where
  "dq = [CHR 0x22]"

text \<open>\<^verbatim>\<open>s.split(c)\<close> for a one-character separator: never empty, \<^verbatim>\<open>"".split("/")\<close> is \<^verbatim>\<open>[""]\<close>.\<close>

fun js_split :: "char \<Rightarrow> string \<Rightarrow> string list" where
  "js_split c [] = [[]]"
| "js_split c (x # xs) =
     (if x = c then [] # js_split c xs
      else (case js_split c xs of
              [] \<Rightarrow> [[x]]
            | w # ws \<Rightarrow> (x # w) # ws))"

text \<open>Array destructuring \<^verbatim>\<open>const [a, b] = arr\<close>: a missing element is \<^verbatim>\<open>undefined\<close>.\<close>

fun nth_opt :: "'a list \<Rightarrow> nat \<Rightarrow> 'a option" where
  "nth_opt [] n = None"
| "nth_opt (x # xs) 0 = Some x"
| "nth_opt (x # xs) (Suc n) = nth_opt xs n"

text \<open>Truthiness of an optional boolean and of an optional string (\<^verbatim>\<open>!x\<close> is its negation).\<close>

fun truthy_bool :: "bool option \<Rightarrow> bool" where
  "truthy_bool None = False"
| "truthy_bool (Some b) = b"

fun truthy_str :: "string option \<Rightarrow> bool" where
  "truthy_str None = False"
| "truthy_str (Some s) = (s \<noteq> [])"

text \<open>Decimal rendering of a number in a template literal (integers only).\<close>

definition digit_char :: "nat \<Rightarrow> char" where
  "digit_char d = ''0123456789'' ! d"

fun show_nat :: "nat \<Rightarrow> string" where
  "show_nat n = (if n < 10 then [digit_char n] else show_nat (n div 10) @ [digit_char (n mod 10)])"

declare show_nat.simps [simp del]

definition show_int :: "int \<Rightarrow> string" where
  "show_int i = (if i < 0 then CHR ''-'' # show_nat (nat (- i)) else show_nat (nat i))"

section \<open>Configuration (config.ts)\<close>

text \<open>
  The fields of \<^verbatim>\<open>Config\<close> read by the permission checks. \<^verbatim>\<open>bypass_permissions\<close> is
  optional in the interface.
\<close>

record permissions =
  read :: bool
  trigger :: bool
  cancel :: bool
  admin :: bool
  whitelist_repos :: "string list"
  blacklist_repos :: "string list"

record config =
  permissions :: permissions
  bypass_permissions :: "bool option"

definition DEFAULT_permissions :: permissions where
  "DEFAULT_permissions =
     \<lparr>read = True, trigger = False, cancel = False, admin = False,
      whitelist_repos = [], blacklist_repos = []\<rparr>"

section \<open>Permission checks (permissions.ts)\<close>

datatype PermissionLevel = Read | Trigger | Cancel | Admin

fun level_name :: "PermissionLevel \<Rightarrow> string" where
  "level_name Read = ''read''"
| "level_name Trigger = ''trigger''"
| "level_name Cancel = ''cancel''"
| "level_name Admin = ''admin''"

text \<open>\<^verbatim>\<open>config.permissions[level]\<close>\<close>

fun perm_flag :: "permissions \<Rightarrow> PermissionLevel \<Rightarrow> bool" where
  "perm_flag p Read = read p"
| "perm_flag p Trigger = trigger p"
| "perm_flag p Cancel = cancel p"
| "perm_flag p Admin = admin p"

definition permission_denied_msg :: "PermissionLevel \<Rightarrow> string" where
  "permission_denied_msg level =
     ''Permission denied: '' @ dq @ level_name level @ dq @ '' access is not enabled. ''
       @ ''Enable it in config or use --bypass-permissions.''"

definition checkPermission :: "config \<Rightarrow> PermissionLevel \<Rightarrow> js_error + unit" where
  "checkPermission cfg level =
     (if truthy_bool (bypass_permissions cfg) then Inr ()
      else if \<not> perm_flag (permissions cfg) level then Inl (Error (permission_denied_msg level))
      else Inr ())"

text \<open>
  The loop of \<^verbatim>\<open>matchesAny\<close>: \<open>owner\<close> and \<open>repoName\<close> are the first two segments of
  the repository, computed once before the loop; each pattern is compared whole, then
  split and compared by segment. \<^verbatim>\<open>===\<close> on two possibly undefined strings is equality
  of options.
\<close>

fun matchesAny_loop :: "string \<Rightarrow> string option \<Rightarrow> string option \<Rightarrow> string list \<Rightarrow> bool" where
  "matchesAny_loop repo owner repoName [] = False"
| "matchesAny_loop repo owner repoName (pattern # rest) =
     (if pattern = repo then True
      else
        (let segs = js_split CHR ''/'' pattern;
             patternOwner = nth_opt segs 0;
             patternRepo = nth_opt segs 1
         in if patternRepo = Some ''*'' \<and> patternOwner = owner then True
            else if patternOwner = Some ''*'' \<and> patternRepo = repoName then True
            else matchesAny_loop repo owner repoName rest))"

definition matchesAny :: "string \<Rightarrow> string list \<Rightarrow> bool" where
  "matchesAny repo patterns =
     (let segs = js_split CHR ''/'' repo
      in matchesAny_loop repo (nth_opt segs 0) (nth_opt segs 1) patterns)"

definition blacklisted_msg :: "string \<Rightarrow> string" where
  "blacklisted_msg repo = ''Access denied: repository '' @ dq @ repo @ dq @ '' is blacklisted.''"

definition not_whitelisted_msg :: "string \<Rightarrow> string" where
  "not_whitelisted_msg repo =
     ''Access denied: repository '' @ dq @ repo @ dq @ '' is not in the whitelist.''"

definition checkRepoAccess :: "config \<Rightarrow> string \<Rightarrow> js_error + unit" where
  "checkRepoAccess cfg repo =
     (if truthy_bool (bypass_permissions cfg) then Inr ()
      else
        (let whitelist = whitelist_repos (permissions cfg);
             blacklist = blacklist_repos (permissions cfg)
         in if length blacklist > 0 \<and> matchesAny repo blacklist
            then Inl (Error (blacklisted_msg repo))
            else if length whitelist = 0 then Inr ()
            else if \<not> matchesAny repo whitelist then Inl (Error (not_whitelisted_msg repo))
            else Inr ()))"

section \<open>Tool handlers (index.ts)\<close>

definition invalid_repo_msg :: "string \<Rightarrow> string" where
  "invalid_repo_msg repo =
     ''Invalid repo format: '' @ dq @ repo @ dq @ ''. Expected '' @ dq @ ''owner/repo'' @ dq"

definition parseRepo :: "string \<Rightarrow> js_error + (string \<times> string)" where
  "parseRepo repo =
     (let segs = js_split CHR ''/'' repo;
          owner = nth_opt segs 0;
          repoName = nth_opt segs 1
      in if \<not> truthy_str owner \<or> \<not> truthy_str repoName then Inl (Error (invalid_repo_msg repo))
         else Inr (the owner, the repoName))"

text \<open>
  Every tool handler starts with the same three statements, in this order:
  \<^verbatim>\<open>checkPermission(config, level); checkRepoAccess(config, repo); parseRepo(repo)\<close>.
  The first that throws ends the handler.
\<close>

definition handler_prelude :: "config \<Rightarrow> PermissionLevel \<Rightarrow> string \<Rightarrow> js_error + (string \<times> string)" where
  "handler_prelude cfg level repo =
     (case checkPermission cfg level of
        Inl e \<Rightarrow> Inl e
      | Inr _ \<Rightarrow>
          (case checkRepoAccess cfg repo of
             Inl e \<Rightarrow> Inl e
           | Inr _ \<Rightarrow> parseRepo repo))"

section \<open>Deadline guard (utils.ts)\<close>

text \<open>
  \<^verbatim>\<open>withTimeout\<close> returns \<^verbatim>\<open>Promise.race([promise, timeout])\<close>: it settles as the first
  of the two to settle. Which of them that is, is the input \<open>first\<close>: the wrapped
  promise with its own outcome, or the timer. The timer's callback rejects with
  \<^verbatim>\<open>new Error(message || `Operation timed out after ${ms}ms`)\<close>; \<open>ms\<close> is a whole
  number of milliseconds.
\<close>

datatype 'a settled = Fulfilled 'a | Rejected js_error

datatype 'a first = Operation "'a settled" | Timer

definition timed_out_msg :: "nat \<Rightarrow> string" where
  "timed_out_msg ms = ''Operation timed out after '' @ show_nat ms @ ''ms''"

fun withTimeout :: "'a first \<Rightarrow> nat \<Rightarrow> string option \<Rightarrow> js_error + 'a" where
  "withTimeout (Operation (Fulfilled v)) ms message = Inr v"
| "withTimeout (Operation (Rejected e)) ms message = Inl e"
| "withTimeout Timer ms message =
     Inl (Error (if truthy_str message then the message else timed_out_msg ms))"

section \<open>Circuit breaker (utils.ts)\<close>

text \<open>
  The private fields of the class and its three read-only constructor parameters.
  \<^verbatim>\<open>Date.now()\<close> is the argument \<open>now\<close> of \<open>check\<close> and \<open>failure\<close>, in milliseconds.
  The two \<^verbatim>\<open>console.error\<close> lines write to the log only and are left out.
\<close>

record CircuitBreaker =
  failures :: int
  lastFailure :: int
  isOpen :: bool
  threshold :: int
  resetTimeMs :: int
  cooldownMs :: int

definition CircuitBreaker_new :: "int \<Rightarrow> int \<Rightarrow> int \<Rightarrow> CircuitBreaker" where
  "CircuitBreaker_new th rs cd =
     \<lparr>failures = 0, lastFailure = 0, isOpen = False,
      threshold = th, resetTimeMs = rs, cooldownMs = cd\<rparr>"

definition CircuitBreaker_default :: CircuitBreaker where
  "CircuitBreaker_default = CircuitBreaker_new 3 60000 300000"

text \<open>\<^verbatim>\<open>Math.ceil(x / 1000)\<close> for an integer \<open>x\<close>.\<close>

definition ceil_div_1000 :: "int \<Rightarrow> int" where
  "ceil_div_1000 x = - ((- x) div 1000)"

definition circuit_open_msg :: "CircuitBreaker \<Rightarrow> int \<Rightarrow> string" where
  "circuit_open_msg b now =
     ''Circuit breaker open: too many failures. Retry after ''
       @ show_int (ceil_div_1000 (cooldownMs b - (now - lastFailure b))) @ ''s''"

definition check :: "int \<Rightarrow> CircuitBreaker \<Rightarrow> (js_error + unit) \<times> CircuitBreaker" where
  "check now b =
     (if \<not> isOpen b then (Inr (), b)
      else if now - lastFailure b > cooldownMs b
           then (Inr (), b\<lparr>isOpen := False, failures := 0\<rparr>)
      else (Inl (Error (circuit_open_msg b now)), b))"

definition success :: "CircuitBreaker \<Rightarrow> CircuitBreaker" where
  "success b = (if failures b > 0 then b\<lparr>failures := failures b - 1\<rparr> else b)"

definition failure :: "int \<Rightarrow> CircuitBreaker \<Rightarrow> CircuitBreaker" where
  "failure now b =
     (let b1 = (if now - lastFailure b > resetTimeMs b then b\<lparr>failures := 0\<rparr> else b);
          b2 = b1\<lparr>failures := failures b1 + 1\<rparr>;
          b3 = b2\<lparr>lastFailure := now\<rparr>
      in if failures b3 \<ge> threshold b3 then b3\<lparr>isOpen := True\<rparr> else b3)"

text \<open>
  Any interleaving of calls on one instance: a call of \<open>check\<close> that throws leaves the
  instance as it was, and the next call finds it so.
\<close>

datatype call = Check int | Success | Failure int

fun do_call :: "CircuitBreaker \<Rightarrow> call \<Rightarrow> CircuitBreaker" where
  "do_call b (Check now) = snd (check now b)"
| "do_call b Success = success b"
| "do_call b (Failure now) = failure now b"

definition run :: "CircuitBreaker \<Rightarrow> call list \<Rightarrow> CircuitBreaker" where
  "run b calls = foldl do_call b calls"

section \<open>Rate limit headers (utils.ts)\<close>

text \<open>
  A JavaScript number as far as this code can produce one: \<open>NaN\<close>, an integer of
  magnitude at most \<open>2 ^ 53\<close> (every one of them is a double, and arithmetic on them is
  exact), or \<open>Big\<close>, some double of larger magnitude (infinite or rounded) whose value is
  not tracked.
\<close>

datatype js_number = NaN | Num int | Big

definition to_number :: "int \<Rightarrow> js_number" where
  "to_number n = (if \<bar>n\<bar> \<le> 2 ^ 53 then Num n else Big)"

text \<open>
  \<^verbatim>\<open>parseInt(s, 10)\<close>: leading white space is skipped, one sign is read, then the longest
  run of decimal digits; no digit gives \<open>NaN\<close>. Characters are code units below 256.
\<close>

definition is_white :: "char \<Rightarrow> bool" where
  "is_white c = (c \<in> set [CHR 0x09, CHR 0x0A, CHR 0x0B, CHR 0x0C, CHR 0x0D, CHR 0x20, CHR 0xA0])"

definition is_digit :: "char \<Rightarrow> bool" where
  "is_digit c = (48 \<le> (of_char c :: nat) \<and> (of_char c :: nat) \<le> 57)"

definition digits_value :: "string \<Rightarrow> nat" where
  "digits_value ds = foldl (\<lambda>acc c. 10 * acc + ((of_char c :: nat) - 48)) 0 ds"

definition parseInt10 :: "string \<Rightarrow> js_number" where
  "parseInt10 s =
     (let t = dropWhile is_white s;
          negative = (case t of [] \<Rightarrow> False | c # _ \<Rightarrow> c = CHR ''-'');
          u = (case t of [] \<Rightarrow> [] | c # r \<Rightarrow> if c = CHR ''+'' \<or> c = CHR ''-'' then r else t);
          ds = takeWhile is_digit u
      in if ds = [] then NaN
         else to_number ((if negative then - 1 else 1) * int (digits_value ds)))"

fun times_1000 :: "js_number \<Rightarrow> js_number" where
  "times_1000 NaN = NaN"
| "times_1000 (Num n) = to_number (n * 1000)"
| "times_1000 Big = Big"

text \<open>
  \<^verbatim>\<open>new Date(ms)\<close>: the time value in milliseconds since the epoch, or an invalid date
  when the number is not finite or beyond \<open>8.64e15\<close> in magnitude.
\<close>

datatype js_date = InvalidDate | DateMs int

fun new_Date :: "js_number \<Rightarrow> js_date" where
  "new_Date NaN = InvalidDate"
| "new_Date (Num n) = (if \<bar>n\<bar> \<le> 8640000000000000 then DateMs n else InvalidDate)"
| "new_Date Big = InvalidDate"

record RateLimitInfo =
  remaining :: js_number
  limit :: js_number
  reset_at :: js_date

definition parseRateLimitHeaders :: "(string \<Rightarrow> string option) \<Rightarrow> RateLimitInfo option" where
  "parseRateLimitHeaders headers =
     (let remaining = headers ''x-ratelimit-remaining'';
          limit = headers ''x-ratelimit-limit'';
          reset = headers ''x-ratelimit-reset''
      in if \<not> truthy_str remaining \<or> \<not> truthy_str limit \<or> \<not> truthy_str reset then None
         else Some \<lparr>remaining = parseInt10 (the remaining),
                    limit = parseInt10 (the limit),
                    reset_at = new_Date (times_1000 (parseInt10 (the reset)))\<rparr>)"

section \<open>Notation and example data for the statements\<close>

text \<open>The \<open>i\<close>-th segment of a string split at \<^verbatim>\<open>/\<close>, undefined when there is none.\<close>

abbreviation seg :: "string \<Rightarrow> nat \<Rightarrow> string option" where
  "seg s i \<equiv> nth_opt (js_split CHR ''/'' s) i"

text \<open>The repository filter of the README's example configuration, with default flags.\<close>

definition README_config :: config where
  "README_config =
     \<lparr>permissions =
        \<lparr>read = True, trigger = False, cancel = False, admin = False,
         whitelist_repos = [''ArktechNWA/*'', ''myorg/myapp''],
         blacklist_repos = [''*/infrastructure'', ''*/secrets-*'']\<rparr>,
      bypass_permissions = None\<rparr>"

definition no_lists_config :: config where
  "no_lists_config = \<lparr>permissions = DEFAULT_permissions, bypass_permissions = None\<rparr>"

text \<open>
  What holds of a breaker between calls: the count is not negative, and a closed breaker
  is below its threshold.
\<close>

definition breaker_inv :: "CircuitBreaker \<Rightarrow> bool" where
  "breaker_inv b \<longleftrightarrow> 0 \<le> failures b \<and> (\<not> isOpen b \<longrightarrow> failures b < threshold b)"

text \<open>Three failures one second apart, and the headers of a response.\<close>

definition three_failures :: "call list" where
  "three_failures = [Failure 1000, Failure 2000, Failure 3000]"

definition example_headers :: "string \<Rightarrow> string option" where
  "example_headers =
     [''x-ratelimit-remaining'' \<mapsto> ''4892'', ''x-ratelimit-limit'' \<mapsto> ''5000'',
      ''x-ratelimit-reset'' \<mapsto> ''1767006000'']"

section \<open>Splitting and matching\<close>

lemma js_split_no_sep: "c \<notin> set s \<Longrightarrow> js_split c s = [s]"
  by (induction s) auto

lemma js_split_sep: "c \<notin> set a \<Longrightarrow> js_split c (a @ c # b) = a # js_split c b"
  by (induction a) auto

lemma js_split_not_Nil: "js_split c s \<noteq> []"
  by (induction s) (auto split: list.splits)

lemma matchesAny_loop_iff:
  "matchesAny_loop repo owner repoName patterns \<longleftrightarrow>
     (\<exists>p \<in> set patterns. p = repo
        \<or> (seg p 1 = Some ''*'' \<and> seg p 0 = owner)
        \<or> (seg p 0 = Some ''*'' \<and> seg p 1 = repoName))"
  by (induction patterns) (auto simp: Let_def)

lemma matchesAny_iff:
  "matchesAny repo patterns \<longleftrightarrow>
     (\<exists>p \<in> set patterns. p = repo
        \<or> (seg p 1 = Some ''*'' \<and> seg p 0 = seg repo 0)
        \<or> (seg p 0 = Some ''*'' \<and> seg p 1 = seg repo 1))"
  by (simp add: matchesAny_def Let_def matchesAny_loop_iff)

lemma checkRepoAccess_cases:
  "checkRepoAccess cfg repo = Inr ()
   \<or> checkRepoAccess cfg repo = Inl (Error (blacklisted_msg repo))
   \<or> checkRepoAccess cfg repo = Inl (Error (not_whitelisted_msg repo))"
  by (simp add: checkRepoAccess_def Let_def)

lemma msgs_differ:
  "blacklisted_msg repo \<noteq> invalid_repo_msg r'" "not_whitelisted_msg repo \<noteq> invalid_repo_msg r'"
  by (simp_all add: blacklisted_msg_def not_whitelisted_msg_def invalid_repo_msg_def)

lemma checkRepoAccess_never_invalid: "checkRepoAccess cfg repo \<noteq> Inl (Error (invalid_repo_msg r'))"
  using checkRepoAccess_cases [of cfg repo] msgs_differ [of repo r'] by auto

lemma parseRepo_no_sep:
  "CHR ''/'' \<notin> set repo \<Longrightarrow> parseRepo repo = Inl (Error (invalid_repo_msg repo))"
  by (simp add: parseRepo_def js_split_no_sep)

section \<open>Access control\<close>

text \<open>
  C6. For each of the four levels, \<open>checkPermission\<close> throws the permission-denied error
  exactly when the flag of that level is false and the bypass flag is not set, and returns
  otherwise. With the bypass flag set every level is allowed. The levels are independent:
  with \<open>admin\<close> on and \<open>trigger\<close> off, \<open>admin\<close> is allowed and \<open>trigger\<close> is denied.
\<close>

theorem checkPermission_decision:
  "(checkPermission cfg level = Inl (Error (permission_denied_msg level))
      \<longleftrightarrow> \<not> perm_flag (permissions cfg) level \<and> \<not> truthy_bool (bypass_permissions cfg))
   \<and> (checkPermission cfg level = Inr ()
      \<longleftrightarrow> perm_flag (permissions cfg) level \<or> truthy_bool (bypass_permissions cfg))
   \<and> (truthy_bool (bypass_permissions cfg) \<longrightarrow> (\<forall>l. checkPermission cfg l = Inr ()))
   \<and> (\<not> truthy_bool (bypass_permissions cfg) \<and> admin (permissions cfg) \<and> \<not> trigger (permissions cfg)
        \<longrightarrow> checkPermission cfg Admin = Inr ()
          \<and> checkPermission cfg Trigger = Inl (Error (permission_denied_msg Trigger)))"
  by (auto simp: checkPermission_def)

theorem checkPermission_decision_witness:
  "admin (DEFAULT_permissions\<lparr>admin := True\<rparr>)
   \<and> \<not> trigger (DEFAULT_permissions\<lparr>admin := True\<rparr>)
   \<and> checkPermission \<lparr>permissions = DEFAULT_permissions\<lparr>admin := True\<rparr>, bypass_permissions = None\<rparr> Admin
        = Inr ()
   \<and> checkPermission \<lparr>permissions = DEFAULT_permissions\<lparr>admin := True\<rparr>, bypass_permissions = None\<rparr> Trigger
        = Inl (Error (permission_denied_msg Trigger))
   \<and> checkPermission \<lparr>permissions = DEFAULT_permissions\<lparr>admin := True\<rparr>, bypass_permissions = Some True\<rparr> Trigger
        = Inr ()"
proof -
  let ?p = "DEFAULT_permissions\<lparr>admin := True\<rparr>"
  have h: "admin ?p" "\<not> trigger ?p" "perm_flag ?p Admin" "\<not> perm_flag ?p Trigger"
    by (simp_all add: DEFAULT_permissions_def)
  from h checkPermission_decision [of "\<lparr>permissions = ?p, bypass_permissions = None\<rparr>" Trigger]
    checkPermission_decision [of "\<lparr>permissions = ?p, bypass_permissions = None\<rparr>" Admin]
    checkPermission_decision [of "\<lparr>permissions = ?p, bypass_permissions = Some True\<rparr>" Trigger]
  show ?thesis by simp
qed

text \<open>
  C1. \<open>checkRepoAccess\<close> decides in this order, the first rule that applies ending it:
  with the bypass flag set it allows; otherwise, with a non-empty blacklist one of whose
  patterns matches, it denies as blacklisted, whatever the whitelist holds; otherwise, with
  an empty whitelist it allows; otherwise it allows exactly when a whitelist pattern
  matches, and denies as not in the whitelist when none does.
\<close>

theorem checkRepoAccess_precedence:
  "(truthy_bool (bypass_permissions cfg) \<longrightarrow> checkRepoAccess cfg repo = Inr ())
   \<and> (\<not> truthy_bool (bypass_permissions cfg)
        \<and> blacklist_repos (permissions cfg) \<noteq> []
        \<and> matchesAny repo (blacklist_repos (permissions cfg))
      \<longrightarrow> checkRepoAccess cfg repo = Inl (Error (blacklisted_msg repo)))
   \<and> (\<not> truthy_bool (bypass_permissions cfg)
        \<and> \<not> (blacklist_repos (permissions cfg) \<noteq> []
             \<and> matchesAny repo (blacklist_repos (permissions cfg)))
        \<and> whitelist_repos (permissions cfg) = []
      \<longrightarrow> checkRepoAccess cfg repo = Inr ())
   \<and> (\<not> truthy_bool (bypass_permissions cfg)
        \<and> \<not> (blacklist_repos (permissions cfg) \<noteq> []
             \<and> matchesAny repo (blacklist_repos (permissions cfg)))
        \<and> whitelist_repos (permissions cfg) \<noteq> []
      \<longrightarrow> (checkRepoAccess cfg repo = Inr ()
             \<longleftrightarrow> matchesAny repo (whitelist_repos (permissions cfg)))
          \<and> (\<not> matchesAny repo (whitelist_repos (permissions cfg))
             \<longrightarrow> checkRepoAccess cfg repo = Inl (Error (not_whitelisted_msg repo))))"
  by (simp add: checkRepoAccess_def Let_def)

theorem checkRepoAccess_precedence_witness:
  "\<not> truthy_bool (bypass_permissions README_config)
   \<and> blacklist_repos (permissions README_config) \<noteq> []
   \<and> matchesAny ''ArktechNWA/infrastructure'' (blacklist_repos (permissions README_config))
   \<and> matchesAny ''ArktechNWA/infrastructure'' (whitelist_repos (permissions README_config))
   \<and> checkRepoAccess README_config ''ArktechNWA/infrastructure''
        = Inl (Error (blacklisted_msg ''ArktechNWA/infrastructure''))
   \<and> \<not> matchesAny ''ArktechNWA/web'' (blacklist_repos (permissions README_config))
   \<and> matchesAny ''ArktechNWA/web'' (whitelist_repos (permissions README_config))
   \<and> checkRepoAccess README_config ''ArktechNWA/web'' = Inr ()
   \<and> \<not> matchesAny ''other/web'' (blacklist_repos (permissions README_config))
   \<and> \<not> matchesAny ''other/web'' (whitelist_repos (permissions README_config))
   \<and> checkRepoAccess README_config ''other/web'' = Inl (Error (not_whitelisted_msg ''other/web''))
   \<and> whitelist_repos (permissions no_lists_config) = []
   \<and> checkRepoAccess no_lists_config ''other/web'' = Inr ()
   \<and> checkRepoAccess (README_config\<lparr>bypass_permissions := Some True\<rparr>) ''ArktechNWA/infrastructure''
        = Inr ()"
proof -
  have h: "\<not> truthy_bool (bypass_permissions README_config)"
    "blacklist_repos (permissions README_config) = [''*/infrastructure'', ''*/secrets-*'']"
    "whitelist_repos (permissions README_config) = [''ArktechNWA/*'', ''myorg/myapp'']"
    "truthy_bool (bypass_permissions (README_config\<lparr>bypass_permissions := Some True\<rparr>))"
    "\<not> truthy_bool (bypass_permissions no_lists_config)"
    "blacklist_repos (permissions no_lists_config) = []"
    "whitelist_repos (permissions no_lists_config) = []"
    by (simp_all add: README_config_def no_lists_config_def DEFAULT_permissions_def)
  have m: "matchesAny ''ArktechNWA/infrastructure'' [''*/infrastructure'', ''*/secrets-*'']"
    "matchesAny ''ArktechNWA/infrastructure'' [''ArktechNWA/*'', ''myorg/myapp'']"
    "\<not> matchesAny ''ArktechNWA/web'' [''*/infrastructure'', ''*/secrets-*'']"
    "matchesAny ''ArktechNWA/web'' [''ArktechNWA/*'', ''myorg/myapp'']"
    "\<not> matchesAny ''other/web'' [''*/infrastructure'', ''*/secrets-*'']"
    "\<not> matchesAny ''other/web'' [''ArktechNWA/*'', ''myorg/myapp'']"
    by (simp_all add: matchesAny_def)
  from h m checkRepoAccess_precedence [of README_config "''ArktechNWA/infrastructure''"]
    checkRepoAccess_precedence [of README_config "''ArktechNWA/web''"]
    checkRepoAccess_precedence [of README_config "''other/web''"]
    checkRepoAccess_precedence [of no_lists_config "''other/web''"]
    checkRepoAccess_precedence [of "README_config\<lparr>bypass_permissions := Some True\<rparr>"
      "''ArktechNWA/infrastructure''"]
  show ?thesis by simp
qed

section \<open>Pattern matcher\<close>

text \<open>
  C3. For a resource \<open>owner/name\<close> (neither part holding a \<^verbatim>\<open>/\<close>) and any list of patterns,
  \<open>matchesAny\<close> is true exactly when some pattern of the list equals the resource, or has
  \<^verbatim>\<open>*\<close> as second segment and the owner as first, or has \<^verbatim>\<open>*\<close> as first segment and the
  name as second; the comparisons are equalities of strings. The empty list matches
  nothing. The four examples of the specification are instances.
\<close>

theorem matcher_contract:
  "CHR ''/'' \<notin> set owner \<and> CHR ''/'' \<notin> set name \<longrightarrow>
     (matchesAny (owner @ ''/'' @ name) patterns \<longleftrightarrow>
        (\<exists>p \<in> set patterns.
            p = owner @ ''/'' @ name
          \<or> (seg p 1 = Some ''*'' \<and> seg p 0 = Some owner)
          \<or> (seg p 0 = Some ''*'' \<and> seg p 1 = Some name)))
     \<and> \<not> matchesAny (owner @ ''/'' @ name) []"
  by (simp add: matchesAny_iff js_split_sep js_split_no_sep)

theorem matcher_contract_witness:
  "CHR ''/'' \<notin> set ''acme'' \<and> CHR ''/'' \<notin> set ''web''
   \<and> matchesAny ''acme/web'' [''acme/*'']
   \<and> matchesAny ''acme/web'' [''*/web'']
   \<and> \<not> matchesAny ''acme/web'' [''other/*'']
   \<and> \<not> matchesAny ''acme/web'' [''*/other'']
   \<and> matchesAny ''acme/web'' [''acme/web'']
   \<and> \<not> matchesAny ''acme/web'' [''Acme/*'']
   \<and> \<not> matchesAny ''acme/web'' [''*/*'']
   \<and> \<not> matchesAny ''acme/web'' [''acme'']
   \<and> \<not> matchesAny ''acme/web'' []"
proof -
  have h: "CHR ''/'' \<notin> set ''acme''" "CHR ''/'' \<notin> set ''web''"
    by simp_all
  have s: "js_split CHR ''/'' ''acme/*'' = [''acme'', ''*'']"
    "js_split CHR ''/'' ''*/web'' = [''*'', ''web'']"
    "js_split CHR ''/'' ''other/*'' = [''other'', ''*'']"
    "js_split CHR ''/'' ''*/other'' = [''*'', ''other'']"
    "js_split CHR ''/'' ''acme/web'' = [''acme'', ''web'']"
    "js_split CHR ''/'' ''Acme/*'' = [''Acme'', ''*'']"
    "js_split CHR ''/'' ''*/*'' = [''*'', ''*'']"
    "js_split CHR ''/'' ''acme'' = [''acme'']"
    by simp_all
  from h s matcher_contract [of "''acme''" "''web''" "[''acme/*'']"]
    matcher_contract [of "''acme''" "''web''" "[''*/web'']"]
    matcher_contract [of "''acme''" "''web''" "[''other/*'']"]
    matcher_contract [of "''acme''" "''web''" "[''*/other'']"]
    matcher_contract [of "''acme''" "''web''" "[''acme/web'']"]
    matcher_contract [of "''acme''" "''web''" "[''Acme/*'']"]
    matcher_contract [of "''acme''" "''web''" "[''*/*'']"]
    matcher_contract [of "''acme''" "''web''" "[''acme'']"]
  show ?thesis by simp
qed

text \<open>
  Against C10 as worded. \<^verbatim>\<open>a//b\<close> and \<^verbatim>\<open>/a/b\<close> hold two separators each, and
  \<open>parseRepo\<close> throws the invalid-format error on both, the name of the first and the
  owner of the second being empty; with both checks allowing, the handler fails with it.
\<close>

theorem extra_segments_counterexample:
  "count_list ''a//b'' CHR ''/'' = 2
   \<and> count_list ''/a/b'' CHR ''/'' = 2
   \<and> parseRepo ''a//b'' = Inl (Error (invalid_repo_msg ''a//b''))
   \<and> parseRepo ''/a/b'' = Inl (Error (invalid_repo_msg ''/a/b''))
   \<and> handler_prelude no_lists_config Read ''a//b'' = Inl (Error (invalid_repo_msg ''a//b''))"
  by (simp add: parseRepo_def handler_prelude_def checkPermission_def checkRepoAccess_def
      no_lists_config_def DEFAULT_permissions_def)

text \<open>
  C10, amended. A resource with two or more \<^verbatim>\<open>/\<close> is \<open>owner/name/extra\<close> with \<open>owner\<close>
  and \<open>name\<close> free of \<^verbatim>\<open>/\<close> and \<open>extra\<close> arbitrary. \<open>checkRepoAccess\<close> never throws
  the invalid-format error on it: without bypass it denies as blacklisted when a blacklist
  pattern matches, else allows when the whitelist is empty or one of its patterns matches,
  else denies as not in the whitelist. \<open>parseRepo\<close>, which the handler calls after
  the two checks, returns owner and name when neither is empty and throws the
  invalid-format error when one of them is. Matching uses the first two segments only:
  \<open>owner/*\<close> and \<open>*/name\<close> match, and whether a list of patterns matches depends on
  \<open>extra\<close> only through equality of a pattern with the whole resource.
\<close>

theorem extra_segments_amended:
  "CHR ''/'' \<notin> set owner \<and> CHR ''/'' \<notin> set name \<longrightarrow>
     checkRepoAccess cfg (owner @ ''/'' @ name @ ''/'' @ extra)
        \<noteq> Inl (Error (invalid_repo_msg (owner @ ''/'' @ name @ ''/'' @ extra)))
     \<and> (\<not> truthy_bool (bypass_permissions cfg) \<longrightarrow>
          checkRepoAccess cfg (owner @ ''/'' @ name @ ''/'' @ extra) =
            (if matchesAny (owner @ ''/'' @ name @ ''/'' @ extra) (blacklist_repos (permissions cfg))
             then Inl (Error (blacklisted_msg (owner @ ''/'' @ name @ ''/'' @ extra)))
             else if whitelist_repos (permissions cfg) = []
                  \<or> matchesAny (owner @ ''/'' @ name @ ''/'' @ extra)
                       (whitelist_repos (permissions cfg))
             then Inr ()
             else Inl (Error (not_whitelisted_msg (owner @ ''/'' @ name @ ''/'' @ extra)))))
     \<and> (owner \<noteq> [] \<and> name \<noteq> []
          \<longrightarrow> parseRepo (owner @ ''/'' @ name @ ''/'' @ extra) = Inr (owner, name))
     \<and> (owner = [] \<or> name = []
          \<longrightarrow> parseRepo (owner @ ''/'' @ name @ ''/'' @ extra)
                = Inl (Error (invalid_repo_msg (owner @ ''/'' @ name @ ''/'' @ extra))))
     \<and> handler_prelude cfg level (owner @ ''/'' @ name @ ''/'' @ extra) =
          (case checkPermission cfg level of
             Inl e \<Rightarrow> Inl e
           | Inr _ \<Rightarrow>
               (case checkRepoAccess cfg (owner @ ''/'' @ name @ ''/'' @ extra) of
                  Inl e \<Rightarrow> Inl e
                | Inr _ \<Rightarrow>
                    if owner = [] \<or> name = []
                    then Inl (Error (invalid_repo_msg (owner @ ''/'' @ name @ ''/'' @ extra)))
                    else Inr (owner, name)))
     \<and> matchesAny (owner @ ''/'' @ name @ ''/'' @ extra) [owner @ ''/*'']
     \<and> matchesAny (owner @ ''/'' @ name @ ''/'' @ extra) [''*/'' @ name]
     \<and> (matchesAny (owner @ ''/'' @ name @ ''/'' @ extra) patterns \<longleftrightarrow>
          (\<exists>p \<in> set patterns.
              p = owner @ ''/'' @ name @ ''/'' @ extra
            \<or> (seg p 1 = Some ''*'' \<and> seg p 0 = Some owner)
            \<or> (seg p 0 = Some ''*'' \<and> seg p 1 = Some name)))"
proof (intro impI)
  assume a: "CHR ''/'' \<notin> set owner \<and> CHR ''/'' \<notin> set name"
  let ?r = "owner @ ''/'' @ name @ ''/'' @ extra"
  have r: "js_split CHR ''/'' ?r = owner # name # js_split CHR ''/'' extra"
    using a by (simp add: js_split_sep)
  have o: "js_split CHR ''/'' (owner @ ''/*'') = [owner, ''*'']"
    using a by (simp add: js_split_sep)
  have n: "js_split CHR ''/'' (''*/'' @ name) = [''*'', name]"
    using a by (simp add: js_split_no_sep)
  have acc: "\<not> truthy_bool (bypass_permissions cfg) \<longrightarrow>
          checkRepoAccess cfg ?r =
            (if matchesAny ?r (blacklist_repos (permissions cfg))
             then Inl (Error (blacklisted_msg ?r))
             else if whitelist_repos (permissions cfg) = []
                  \<or> matchesAny ?r (whitelist_repos (permissions cfg))
             then Inr ()
             else Inl (Error (not_whitelisted_msg ?r)))"
    by (cases "blacklist_repos (permissions cfg)")
      (simp_all add: checkRepoAccess_def Let_def matchesAny_def)
  have pr: "parseRepo ?r = (if owner = [] \<or> name = [] then Inl (Error (invalid_repo_msg ?r))
                            else Inr (owner, name))"
    using r by (simp add: parseRepo_def)
  have hp: "handler_prelude cfg level ?r =
          (case checkPermission cfg level of
             Inl e \<Rightarrow> Inl e
           | Inr _ \<Rightarrow>
               (case checkRepoAccess cfg ?r of
                  Inl e \<Rightarrow> Inl e
                | Inr _ \<Rightarrow>
                    if owner = [] \<or> name = [] then Inl (Error (invalid_repo_msg ?r))
                    else Inr (owner, name)))"
    unfolding handler_prelude_def pr ..
  have m: "matchesAny ?r [owner @ ''/*'']" "matchesAny ?r [''*/'' @ name]"
    "matchesAny ?r patterns \<longleftrightarrow>
          (\<exists>p \<in> set patterns.
              p = ?r
            \<or> (seg p 1 = Some ''*'' \<and> seg p 0 = Some owner)
            \<or> (seg p 0 = Some ''*'' \<and> seg p 1 = Some name))"
    using r o n by (simp_all add: matchesAny_iff)
  have ni: "checkRepoAccess cfg ?r \<noteq> Inl (Error (invalid_repo_msg ?r))"
    by (rule checkRepoAccess_never_invalid)
  have p1: "owner \<noteq> [] \<and> name \<noteq> [] \<longrightarrow> parseRepo ?r = Inr (owner, name)"
    and p2: "owner = [] \<or> name = [] \<longrightarrow> parseRepo ?r = Inl (Error (invalid_repo_msg ?r))"
    using pr by auto
  from ni acc p1 p2 hp m
  show "checkRepoAccess cfg ?r \<noteq> Inl (Error (invalid_repo_msg ?r))
     \<and> (\<not> truthy_bool (bypass_permissions cfg) \<longrightarrow>
          checkRepoAccess cfg ?r =
            (if matchesAny ?r (blacklist_repos (permissions cfg))
             then Inl (Error (blacklisted_msg ?r))
             else if whitelist_repos (permissions cfg) = []
                  \<or> matchesAny ?r (whitelist_repos (permissions cfg))
             then Inr ()
             else Inl (Error (not_whitelisted_msg ?r))))
     \<and> (owner \<noteq> [] \<and> name \<noteq> [] \<longrightarrow> parseRepo ?r = Inr (owner, name))
     \<and> (owner = [] \<or> name = [] \<longrightarrow> parseRepo ?r = Inl (Error (invalid_repo_msg ?r)))
     \<and> handler_prelude cfg level ?r =
          (case checkPermission cfg level of
             Inl e \<Rightarrow> Inl e
           | Inr _ \<Rightarrow>
               (case checkRepoAccess cfg ?r of
                  Inl e \<Rightarrow> Inl e
                | Inr _ \<Rightarrow>
                    if owner = [] \<or> name = [] then Inl (Error (invalid_repo_msg ?r))
                    else Inr (owner, name)))
     \<and> matchesAny ?r [owner @ ''/*'']
     \<and> matchesAny ?r [''*/'' @ name]
     \<and> (matchesAny ?r patterns \<longleftrightarrow>
          (\<exists>p \<in> set patterns.
              p = ?r
            \<or> (seg p 1 = Some ''*'' \<and> seg p 0 = Some owner)
            \<or> (seg p 0 = Some ''*'' \<and> seg p 1 = Some name)))"
    by blast
qed

theorem extra_segments_amended_witness:
  "CHR ''/'' \<notin> set ''owner'' \<and> CHR ''/'' \<notin> set ''name''
   \<and> matchesAny ''owner/name/extra'' [''owner/*'']
   \<and> matchesAny ''owner/name/extra'' [''*/name'']
   \<and> \<not> matchesAny ''owner/name/extra'' [''owner/name'', ''*/extra'', ''name/*'']
   \<and> parseRepo ''owner/name/extra'' = Inr (''owner'', ''name'')
   \<and> checkRepoAccess README_config ''owner/name/extra''
        = Inl (Error (not_whitelisted_msg ''owner/name/extra''))
   \<and> handler_prelude no_lists_config Read ''owner/name/extra'' = Inr (''owner'', ''name'')
   \<and> CHR ''/'' \<notin> set ''a'' \<and> CHR ''/'' \<notin> set ([] :: string)
   \<and> parseRepo ''a//b'' = Inl (Error (invalid_repo_msg ''a//b''))
   \<and> matchesAny ''a//b'' [''a/*'']
   \<and> handler_prelude no_lists_config Read ''a//b'' = Inl (Error (invalid_repo_msg ''a//b''))"
proof -
  have h: "CHR ''/'' \<notin> set ''owner''" "CHR ''/'' \<notin> set ''name''"
    "CHR ''/'' \<notin> set ''a''" "CHR ''/'' \<notin> set ([] :: string)"
    by simp_all
  have s: "js_split CHR ''/'' ''owner/name'' = [''owner'', ''name'']"
    "js_split CHR ''/'' ''*/extra'' = [''*'', ''extra'']"
    "js_split CHR ''/'' ''name/*'' = [''name'', ''*'']"
    "js_split CHR ''/'' ''ArktechNWA/*'' = [''ArktechNWA'', ''*'']"
    "js_split CHR ''/'' ''myorg/myapp'' = [''myorg'', ''myapp'']"
    "js_split CHR ''/'' ''*/infrastructure'' = [''*'', ''infrastructure'']"
    "js_split CHR ''/'' ''*/secrets-*'' = [''*'', ''secrets-*'']"
    by simp_all
  have c: "\<not> truthy_bool (bypass_permissions README_config)"
    "blacklist_repos (permissions README_config) = [''*/infrastructure'', ''*/secrets-*'']"
    "whitelist_repos (permissions README_config) = [''ArktechNWA/*'', ''myorg/myapp'']"
    "\<not> truthy_bool (bypass_permissions no_lists_config)"
    "blacklist_repos (permissions no_lists_config) = []"
    "whitelist_repos (permissions no_lists_config) = []"
    "checkPermission no_lists_config Read = Inr ()"
    by (simp_all add: README_config_def no_lists_config_def DEFAULT_permissions_def
        checkPermission_def)
  note t = extra_segments_amended [where owner = "''owner''" and name = "''name''"
      and extra = "''extra''" and level = Read]
  note u = extra_segments_amended [where owner = "''a''" and name = "[]" and extra = "''b''"
      and level = Read]
  from h s c
    t [where cfg = README_config and patterns = "[''owner/name'', ''*/extra'', ''name/*'']"]
    t [where cfg = README_config and patterns = "[''*/infrastructure'', ''*/secrets-*'']"]
    t [where cfg = README_config and patterns = "[''ArktechNWA/*'', ''myorg/myapp'']"]
    t [where cfg = no_lists_config and patterns = "[]"]
    u [where cfg = no_lists_config and patterns = "[]"]
  show ?thesis by simp
qed

section \<open>Malformed resources\<close>

text \<open>
  Against C5 as worded: \<^verbatim>\<open>no-slash-here\<close> has no separator, and \<open>checkRepoAccess\<close> throws
  no malformed-resource error on it. Under the README's whitelist it is denied as not in
  the whitelist, that is, taken as a plain non-match; with empty lists, and with the
  whitelist \<^verbatim>\<open>["*"]\<close>, it is allowed.
\<close>

theorem malformed_resource_counterexample:
  "CHR ''/'' \<notin> set ''no-slash-here''
   \<and> checkRepoAccess README_config ''no-slash-here''
       = Inl (Error (not_whitelisted_msg ''no-slash-here''))
   \<and> checkRepoAccess no_lists_config ''no-slash-here'' = Inr ()
   \<and> checkRepoAccess
        \<lparr>permissions = DEFAULT_permissions\<lparr>whitelist_repos := [''*'']\<rparr>, bypass_permissions = None\<rparr>
        ''no-slash-here'' = Inr ()"
  by (simp add: checkRepoAccess_def README_config_def no_lists_config_def DEFAULT_permissions_def
      matchesAny_def)

text \<open>
  C5, amended. For a resource without \<^verbatim>\<open>/\<close>, \<open>checkRepoAccess\<close> never throws the
  invalid-format error: it evaluates the patterns with the whole string as owner and an
  undefined name, and allows or denies by the usual precedence. The invalid-format error
  comes from \<open>parseRepo\<close>, which always throws it on such a resource and which every
  handler calls after \<open>checkPermission\<close> and \<open>checkRepoAccess\<close>: the handler fails with
  the first error of the three.
\<close>

theorem malformed_resource_amended:
  "CHR ''/'' \<notin> set repo \<longrightarrow>
     checkRepoAccess cfg repo \<noteq> Inl (Error (invalid_repo_msg repo))
     \<and> (matchesAny repo patterns \<longleftrightarrow>
          (\<exists>p \<in> set patterns.
              p = repo
            \<or> (seg p 1 = Some ''*'' \<and> seg p 0 = Some repo)
            \<or> (seg p 0 = Some ''*'' \<and> seg p 1 = None)))
     \<and> parseRepo repo = Inl (Error (invalid_repo_msg repo))
     \<and> handler_prelude cfg level repo =
          (case checkPermission cfg level of
             Inl e \<Rightarrow> Inl e
           | Inr _ \<Rightarrow>
               (case checkRepoAccess cfg repo of
                  Inl e \<Rightarrow> Inl e
                | Inr _ \<Rightarrow> Inl (Error (invalid_repo_msg repo))))"
  by (simp add: checkRepoAccess_never_invalid parseRepo_no_sep handler_prelude_def
      matchesAny_iff js_split_no_sep split: sum.splits)

theorem malformed_resource_amended_witness:
  "CHR ''/'' \<notin> set ''no-slash-here''
   \<and> checkRepoAccess README_config ''no-slash-here'' \<noteq> Inl (Error (invalid_repo_msg ''no-slash-here''))
   \<and> parseRepo ''no-slash-here'' = Inl (Error (invalid_repo_msg ''no-slash-here''))
   \<and> matchesAny ''no-slash-here'' [''*'']
   \<and> \<not> matchesAny ''no-slash-here'' [''*/no-slash-here'']
   \<and> handler_prelude no_lists_config Read ''no-slash-here''
        = Inl (Error (invalid_repo_msg ''no-slash-here''))
   \<and> handler_prelude README_config Read ''no-slash-here''
        = Inl (Error (not_whitelisted_msg ''no-slash-here''))"
proof -
  have h: "CHR ''/'' \<notin> set ''no-slash-here''"
    by simp
  have s: "js_split CHR ''/'' ''*'' = [''*'']"
    "js_split CHR ''/'' ''*/no-slash-here'' = [''*'', ''no-slash-here'']"
    by simp_all
  have c: "checkPermission no_lists_config Read = Inr ()"
    "checkRepoAccess no_lists_config ''no-slash-here'' = Inr ()"
    "checkPermission README_config Read = Inr ()"
    "checkRepoAccess README_config ''no-slash-here''
       = Inl (Error (not_whitelisted_msg ''no-slash-here''))"
    by (simp_all add: checkPermission_def checkRepoAccess_def README_config_def
        no_lists_config_def DEFAULT_permissions_def matchesAny_def)
  from h s c
    malformed_resource_amended [of "''no-slash-here''" README_config "[''*'']" Read]
    malformed_resource_amended [of "''no-slash-here''" README_config "[''*/no-slash-here'']" Read]
    malformed_resource_amended [of "''no-slash-here''" no_lists_config "[]" Read]
  show ?thesis by simp
qed

section \<open>Circuit breaker\<close>

lemma check_closed: "\<not> isOpen b \<Longrightarrow> check now b = (Inr (), b)"
  by (simp add: check_def)

lemma check_after_cooldown:
  "isOpen b \<Longrightarrow> cooldownMs b < now - lastFailure b
     \<Longrightarrow> check now b = (Inr (), b\<lparr>isOpen := False, failures := 0\<rparr>)"
  by (simp add: check_def)

lemma check_within_cooldown:
  "isOpen b \<Longrightarrow> now - lastFailure b \<le> cooldownMs b
     \<Longrightarrow> check now b = (Inl (Error (circuit_open_msg b now)), b)"
  by (simp add: check_def)

lemma open_kept: "isOpen b \<Longrightarrow> isOpen (success b) \<and> isOpen (failure t b)"
  by (simp add: success_def failure_def Let_def)

lemma do_call_params:
  "threshold (do_call b c) = threshold b \<and> resetTimeMs (do_call b c) = resetTimeMs b
   \<and> cooldownMs (do_call b c) = cooldownMs b"
  by (cases c) (simp_all add: check_def success_def failure_def Let_def)

lemma do_call_inv:
  assumes "0 < threshold b" and "breaker_inv b"
  shows "breaker_inv (do_call b c)"
proof (cases c)
  case (Check now)
  with assms show ?thesis by (auto simp: breaker_inv_def check_def)
next
  case Success
  with assms show ?thesis by (auto simp: breaker_inv_def success_def)
next
  case (Failure now)
  with assms show ?thesis by (auto simp: breaker_inv_def failure_def Let_def)
qed

lemma run_params:
  "threshold (run b calls) = threshold b \<and> resetTimeMs (run b calls) = resetTimeMs b
   \<and> cooldownMs (run b calls) = cooldownMs b"
  unfolding run_def
  by (induction calls arbitrary: b) (simp_all add: do_call_params)

lemma run_inv: "0 < threshold b \<Longrightarrow> breaker_inv b \<Longrightarrow> breaker_inv (run b calls)"
  unfolding run_def
proof (induction calls arbitrary: b)
  case Nil
  then show ?case by simp
next
  case (Cons c calls)
  have "0 < threshold (do_call b c)"
    using Cons.prems(1) by (simp add: do_call_params)
  moreover have "breaker_inv (do_call b c)"
    using Cons.prems by (rule do_call_inv)
  ultimately show ?case
    using Cons.IH by simp
qed

lemma new_inv: "0 < th \<Longrightarrow> breaker_inv (CircuitBreaker_new th rs cd)"
  by (simp add: breaker_inv_def CircuitBreaker_new_def)

lemma run_three:
  "run (CircuitBreaker_new 3 60000 300000) three_failures
     = \<lparr>failures = 3, lastFailure = 3000, isOpen = True,
        threshold = 3, resetTimeMs = 60000, cooldownMs = 300000\<rparr>"
  by (simp add: run_def three_failures_def CircuitBreaker_new_def failure_def Let_def)

lemma retry_after_0:
  "circuit_open_msg \<lparr>failures = 3, lastFailure = 3000, isOpen = True,
        threshold = 3, resetTimeMs = 60000, cooldownMs = 300000\<rparr> 303000
   = ''Circuit breaker open: too many failures. Retry after 0s''"
  by (simp add: circuit_open_msg_def ceil_div_1000_def show_int_def show_nat.simps digit_char_def)

lemma retry_after_300:
  "circuit_open_msg \<lparr>failures = 3, lastFailure = 3000, isOpen = True,
        threshold = 3, resetTimeMs = 60000, cooldownMs = 300000\<rparr> 3001
   = ''Circuit breaker open: too many failures. Retry after 300s''"
  by (simp add: circuit_open_msg_def ceil_div_1000_def show_int_def show_nat.simps digit_char_def)

text \<open>
  C7. One call of \<open>success\<close> lowers the failure count by exactly one when it is positive
  and leaves it otherwise, so by at most one and never from a count that is not negative
  to a negative one. Nothing else changes: the breaker stays open or closed as it was,
  and the time of the last failure and the three parameters are kept.
\<close>

theorem success_frame:
  "failures (success b) = (if 0 < failures b then failures b - 1 else failures b)
   \<and> failures b - 1 \<le> failures (success b) \<and> failures (success b) \<le> failures b
   \<and> (0 \<le> failures b \<longrightarrow> 0 \<le> failures (success b))
   \<and> isOpen (success b) = isOpen b
   \<and> lastFailure (success b) = lastFailure b
   \<and> threshold (success b) = threshold b
   \<and> resetTimeMs (success b) = resetTimeMs b
   \<and> cooldownMs (success b) = cooldownMs b
   \<and> success b = b\<lparr>failures := failures (success b)\<rparr>"
  by (simp add: success_def)

theorem success_frame_witness:
  "0 < failures (run (CircuitBreaker_new 3 60000 300000) three_failures)
   \<and> failures (success (run (CircuitBreaker_new 3 60000 300000) three_failures)) = 2
   \<and> isOpen (success (run (CircuitBreaker_new 3 60000 300000) three_failures))
   \<and> lastFailure (success (run (CircuitBreaker_new 3 60000 300000) three_failures)) = 3000
   \<and> failures (success (CircuitBreaker_new 3 60000 300000)) = 0"
proof -
  have z: "failures (CircuitBreaker_new 3 60000 300000) = 0"
    by (simp add: CircuitBreaker_new_def)
  from z run_three
    success_frame [of "run (CircuitBreaker_new 3 60000 300000) three_failures"]
    success_frame [of "CircuitBreaker_new 3 60000 300000"]
  show ?thesis by simp
qed

text \<open>
  Against C2 as worded, with the default parameters. After three failures and one success
  the breaker is open with a count of 2, below the threshold 3. After three failures, the
  last at 3000, and a \<open>check\<close> at 303000, the cooldown of 300000 has elapsed, yet the
  breaker is still open and the count still 3.
\<close>

theorem breaker_invariant_counterexample:
  "isOpen (run (CircuitBreaker_new 3 60000 300000) (three_failures @ [Success]))
   \<and> failures (run (CircuitBreaker_new 3 60000 300000) (three_failures @ [Success]))
       < threshold (run (CircuitBreaker_new 3 60000 300000) (three_failures @ [Success]))
   \<and> isOpen (run (CircuitBreaker_new 3 60000 300000) (three_failures @ [Check 303000]))
   \<and> 303000 - lastFailure (run (CircuitBreaker_new 3 60000 300000) (three_failures @ [Check 303000]))
       \<ge> cooldownMs (run (CircuitBreaker_new 3 60000 300000) (three_failures @ [Check 303000]))
   \<and> failures (run (CircuitBreaker_new 3 60000 300000) (three_failures @ [Check 303000])) = 3"
  using run_three by (simp add: run_def success_def check_def)

text \<open>
  C2, amended. With a threshold of at least 1, in every state reached from a new breaker
  by calls of \<open>check\<close>, \<open>success\<close> and \<open>failure\<close> at any times, the failure count is
  not negative and a count at or above the threshold implies that the breaker is open
  (no closed breaker keeps such a count), and the parameters are those of the constructor.
  An open breaker stays open however much time passes and through every call of
  \<open>success\<close> and \<open>failure\<close>, until \<open>check\<close> is called: called
  more than the cooldown after the last failure, \<open>check\<close> returns and sets the breaker
  closed and the count to zero in the same step; called earlier, or exactly at the
  cooldown, it throws and changes nothing. On a closed breaker \<open>check\<close> returns and
  changes nothing.
\<close>

theorem breaker_invariant_amended:
  "0 < th \<longrightarrow>
     (let b = run (CircuitBreaker_new th rs cd) calls in
        0 \<le> failures b
      \<and> (threshold b \<le> failures b \<longrightarrow> isOpen b)
      \<and> threshold b = th \<and> resetTimeMs b = rs \<and> cooldownMs b = cd
      \<and> (isOpen b \<and> cd < now - lastFailure b
           \<longrightarrow> check now b = (Inr (), b\<lparr>isOpen := False, failures := 0\<rparr>))
      \<and> (isOpen b \<and> now - lastFailure b \<le> cd
           \<longrightarrow> check now b = (Inl (Error (circuit_open_msg b now)), b))
      \<and> (\<not> isOpen b \<longrightarrow> check now b = (Inr (), b))
      \<and> (isOpen b \<longrightarrow> isOpen (success b) \<and> isOpen (failure t b)))"
proof (intro impI)
  assume th: "0 < th"
  define b where "b = run (CircuitBreaker_new th rs cd) calls"
  have p: "threshold b = th" "resetTimeMs b = rs" "cooldownMs b = cd"
    unfolding b_def by (simp_all add: run_params CircuitBreaker_new_def)
  have "breaker_inv b"
    unfolding b_def using th by (intro run_inv new_inv) (simp_all add: CircuitBreaker_new_def)
  then have i: "0 \<le> failures b" "threshold b \<le> failures b \<longrightarrow> isOpen b"
    by (auto simp: breaker_inv_def)
  have c: "isOpen b \<and> cd < now - lastFailure b
             \<longrightarrow> check now b = (Inr (), b\<lparr>isOpen := False, failures := 0\<rparr>)"
    "isOpen b \<and> now - lastFailure b \<le> cd
             \<longrightarrow> check now b = (Inl (Error (circuit_open_msg b now)), b)"
    "\<not> isOpen b \<longrightarrow> check now b = (Inr (), b)"
    using p by (simp_all add: check_closed check_after_cooldown check_within_cooldown)
  have k: "isOpen b \<longrightarrow> isOpen (success b) \<and> isOpen (failure t b)"
    by (simp add: open_kept)
  from p i c k show "let b = run (CircuitBreaker_new th rs cd) calls in
        0 \<le> failures b
      \<and> (threshold b \<le> failures b \<longrightarrow> isOpen b)
      \<and> threshold b = th \<and> resetTimeMs b = rs \<and> cooldownMs b = cd
      \<and> (isOpen b \<and> cd < now - lastFailure b
           \<longrightarrow> check now b = (Inr (), b\<lparr>isOpen := False, failures := 0\<rparr>))
      \<and> (isOpen b \<and> now - lastFailure b \<le> cd
           \<longrightarrow> check now b = (Inl (Error (circuit_open_msg b now)), b))
      \<and> (\<not> isOpen b \<longrightarrow> check now b = (Inr (), b))
      \<and> (isOpen b \<longrightarrow> isOpen (success b) \<and> isOpen (failure t b))"
    unfolding Let_def b_def [symmetric] by blast
qed

theorem breaker_invariant_amended_witness:
  "(0::int) < 3
   \<and> isOpen (run (CircuitBreaker_new 3 60000 300000) three_failures)
   \<and> (300000::int) < 303001 - lastFailure (run (CircuitBreaker_new 3 60000 300000) three_failures)
   \<and> check 303001 (run (CircuitBreaker_new 3 60000 300000) three_failures)
       = (Inr (), \<lparr>failures = 0, lastFailure = 3000, isOpen = False,
                   threshold = 3, resetTimeMs = 60000, cooldownMs = 300000\<rparr>)
   \<and> 303000 - lastFailure (run (CircuitBreaker_new 3 60000 300000) three_failures) \<le> (300000::int)
   \<and> fst (check 303000 (run (CircuitBreaker_new 3 60000 300000) three_failures))
       = Inl (Error (circuit_open_msg (run (CircuitBreaker_new 3 60000 300000) three_failures) 303000))
   \<and> \<not> isOpen (run (CircuitBreaker_new 3 60000 300000) [Failure 1000, Success, Failure 2000])
   \<and> 0 \<le> failures (run (CircuitBreaker_new 3 60000 300000) [Failure 1000, Success, Failure 2000])
   \<and> isOpen (success (run (CircuitBreaker_new 3 60000 300000) three_failures))
   \<and> isOpen (failure 400000 (run (CircuitBreaker_new 3 60000 300000) three_failures))"
proof -
  have h: "(0::int) < 3"
    by simp
  have s: "\<not> isOpen (run (CircuitBreaker_new 3 60000 300000) [Failure 1000, Success, Failure 2000])"
    by (simp add: run_def CircuitBreaker_new_def failure_def success_def Let_def)
  from h s run_three
    breaker_invariant_amended [of 3 60000 300000 three_failures 303001 400000]
    breaker_invariant_amended [of 3 60000 300000 three_failures 303000 400000]
    breaker_invariant_amended [of 3 60000 300000 "[Failure 1000, Success, Failure 2000]" 0 0]
  show ?thesis by (simp add: Let_def)
qed

text \<open>
  Against C4 as worded, with the default parameters. A \<open>check\<close> exactly one cooldown
  after the last failure still throws (with a retry hint of zero seconds) and leaves the
  breaker open. Three failures in a row, each more than the reset window after the one
  before, leave the breaker closed.
\<close>

theorem breaker_transitions_counterexample:
  "isOpen (run (CircuitBreaker_new 3 60000 300000) three_failures)
   \<and> 303000 - lastFailure (run (CircuitBreaker_new 3 60000 300000) three_failures)
       \<ge> cooldownMs (run (CircuitBreaker_new 3 60000 300000) three_failures)
   \<and> check 303000 (run (CircuitBreaker_new 3 60000 300000) three_failures)
       = (Inl (Error ''Circuit breaker open: too many failures. Retry after 0s''),
          run (CircuitBreaker_new 3 60000 300000) three_failures)
   \<and> \<not> isOpen (run (CircuitBreaker_new 3 60000 300000)
                  [Failure 100000, Failure 200000, Failure 300000])"
proof -
  have "\<not> isOpen (run (CircuitBreaker_new 3 60000 300000)
                  [Failure 100000, Failure 200000, Failure 300000])"
    by (simp add: run_def CircuitBreaker_new_def failure_def Let_def)
  then show ?thesis
    using retry_after_0 by (simp add: run_three check_def)
qed

text \<open>
  C4, amended. A closed breaker opens exactly in a call of \<open>failure\<close> that brings the
  count to the threshold or above; \<open>success\<close> and \<open>check\<close> leave it closed. With
  threshold 3, three failures in a row on a new breaker, each at most the reset window
  after the one before, open it, and two do not. On an open breaker \<open>check\<close> throws the
  circuit-open error and changes nothing as long as the time since the last failure is
  at most the cooldown; once it is more than the cooldown, \<open>check\<close> returns, and the
  breaker is closed with a count of zero.
\<close>

theorem breaker_transitions_amended:
  "(\<not> isOpen b \<longrightarrow>
       (isOpen (failure now b) \<longleftrightarrow> threshold b \<le> failures (failure now b))
     \<and> \<not> isOpen (success b)
     \<and> \<not> isOpen (snd (check now b)))
   \<and> (tb - ta \<le> rs \<and> tc - tb \<le> rs \<longrightarrow>
        \<not> isOpen (run (CircuitBreaker_new 3 rs cd) [Failure ta, Failure tb])
      \<and> isOpen (run (CircuitBreaker_new 3 rs cd) [Failure ta, Failure tb, Failure tc])
      \<and> failures (run (CircuitBreaker_new 3 rs cd) [Failure ta, Failure tb, Failure tc]) = 3
      \<and> lastFailure (run (CircuitBreaker_new 3 rs cd) [Failure ta, Failure tb, Failure tc]) = tc)
   \<and> (isOpen b \<and> now - lastFailure b \<le> cooldownMs b
        \<longrightarrow> check now b = (Inl (Error (circuit_open_msg b now)), b))
   \<and> (isOpen b \<and> cooldownMs b < now - lastFailure b
        \<longrightarrow> check now b = (Inr (), b\<lparr>isOpen := False, failures := 0\<rparr>)
          \<and> \<not> isOpen (snd (check now b)) \<and> failures (snd (check now b)) = 0)"
proof -
  have a: "\<not> isOpen b \<longrightarrow>
       (isOpen (failure now b) \<longleftrightarrow> threshold b \<le> failures (failure now b))
     \<and> \<not> isOpen (success b)
     \<and> \<not> isOpen (snd (check now b))"
    by (simp add: failure_def success_def check_def Let_def)
  have b: "tb - ta \<le> rs \<and> tc - tb \<le> rs \<longrightarrow>
        \<not> isOpen (run (CircuitBreaker_new 3 rs cd) [Failure ta, Failure tb])
      \<and> isOpen (run (CircuitBreaker_new 3 rs cd) [Failure ta, Failure tb, Failure tc])
      \<and> failures (run (CircuitBreaker_new 3 rs cd) [Failure ta, Failure tb, Failure tc]) = 3
      \<and> lastFailure (run (CircuitBreaker_new 3 rs cd) [Failure ta, Failure tb, Failure tc]) = tc"
    by (simp add: run_def CircuitBreaker_new_def failure_def Let_def)
  have c: "isOpen b \<and> now - lastFailure b \<le> cooldownMs b
        \<longrightarrow> check now b = (Inl (Error (circuit_open_msg b now)), b)"
    by (simp add: check_within_cooldown)
  have d: "isOpen b \<and> cooldownMs b < now - lastFailure b
        \<longrightarrow> check now b = (Inr (), b\<lparr>isOpen := False, failures := 0\<rparr>)
          \<and> \<not> isOpen (snd (check now b)) \<and> failures (snd (check now b)) = 0"
    by (simp add: check_after_cooldown)
  from a b c d show ?thesis by blast
qed

theorem breaker_transitions_amended_witness:
  "(2000::int) - 1000 \<le> 60000 \<and> (3000::int) - 2000 \<le> 60000
   \<and> \<not> isOpen (run (CircuitBreaker_new 3 60000 300000) [Failure 1000, Failure 2000])
   \<and> isOpen (run (CircuitBreaker_new 3 60000 300000) [Failure 1000, Failure 2000, Failure 3000])
   \<and> 3001 - lastFailure (run (CircuitBreaker_new 3 60000 300000) three_failures)
        \<le> cooldownMs (run (CircuitBreaker_new 3 60000 300000) three_failures)
   \<and> fst (check 3001 (run (CircuitBreaker_new 3 60000 300000) three_failures))
        = Inl (Error ''Circuit breaker open: too many failures. Retry after 300s'')
   \<and> cooldownMs (run (CircuitBreaker_new 3 60000 300000) three_failures)
        < 303001 - lastFailure (run (CircuitBreaker_new 3 60000 300000) three_failures)
   \<and> fst (check 303001 (run (CircuitBreaker_new 3 60000 300000) three_failures)) = Inr ()
   \<and> \<not> isOpen (snd (check 303001 (run (CircuitBreaker_new 3 60000 300000) three_failures)))
   \<and> failures (snd (check 303001 (run (CircuitBreaker_new 3 60000 300000) three_failures))) = 0
   \<and> \<not> isOpen (CircuitBreaker_new 3 60000 300000)
   \<and> \<not> isOpen (failure 1000 (CircuitBreaker_new 3 60000 300000))
   \<and> isOpen (failure 1000 (CircuitBreaker_new 1 60000 300000))"
proof -
  have h: "(2000::int) - 1000 \<le> 60000" "(3000::int) - 2000 \<le> 60000"
    by simp_all
  have n: "\<not> isOpen (CircuitBreaker_new 3 60000 300000)"
    "failures (failure 1000 (CircuitBreaker_new 3 60000 300000)) = 1"
    "threshold (CircuitBreaker_new 3 60000 300000) = 3"
    "\<not> isOpen (CircuitBreaker_new 1 60000 300000)"
    "failures (failure 1000 (CircuitBreaker_new 1 60000 300000)) = 1"
    "threshold (CircuitBreaker_new 1 60000 300000) = 1"
    by (simp_all add: CircuitBreaker_new_def failure_def Let_def)
  from h n run_three retry_after_300
    breaker_transitions_amended [where b = "CircuitBreaker_new 3 60000 300000" and now = 1000
      and ta = 1000 and tb = 2000 and tc = 3000 and rs = 60000 and cd = 300000]
    breaker_transitions_amended [where b = "CircuitBreaker_new 1 60000 300000" and now = 1000
      and ta = 1000 and tb = 2000 and tc = 3000 and rs = 60000 and cd = 300000]
    breaker_transitions_amended [where b = "run (CircuitBreaker_new 3 60000 300000) three_failures"
      and now = 3001 and ta = 1000 and tb = 2000 and tc = 3000 and rs = 60000 and cd = 300000]
    breaker_transitions_amended [where b = "run (CircuitBreaker_new 3 60000 300000) three_failures"
      and now = 303001 and ta = 1000 and tb = 2000 and tc = 3000 and rs = 60000 and cd = 300000]
  show ?thesis by (simp add: three_failures_def)
qed

section \<open>Deadline guard\<close>

lemma timed_out_50: "timed_out_msg 50 = ''Operation timed out after 50ms''"
  by (simp add: timed_out_msg_def show_nat.simps digit_char_def)

text \<open>
  Against C9 as worded. With a caller's message the error of a 50 ms timeout is the same
  value as that of a 1000 ms timeout, so it does not carry the bound; and it is the same
  value as the rejection of an operation that fails with an \<^verbatim>\<open>Error\<close> of that message.
  Without a message, an operation can reject with the very error of the timeout.
\<close>

theorem timeout_error_counterexample:
  "(withTimeout Timer 50 (Some ''boom'') :: js_error + unit)
     = withTimeout Timer 1000 (Some ''boom'')
   \<and> (withTimeout Timer 50 (Some ''boom'') :: js_error + unit)
     = withTimeout (Operation (Rejected (Error ''boom''))) 50 (Some ''boom'')
   \<and> (withTimeout Timer 50 None :: js_error + unit)
     = withTimeout (Operation (Rejected (Error ''Operation timed out after 50ms''))) 50 None"
  by (simp add: timed_out_50)

text \<open>
  C9, amended. When the timer settles first, \<open>withTimeout\<close> rejects with a plain
  \<^verbatim>\<open>Error\<close> whose message is the caller's message when one is given and not empty, and
  otherwise the default text, which names the bound. The error has no kind of its own:
  some rejection of the wrapped operation gives the same result. When the operation
  settles first, its own outcome is the result.
\<close>

theorem timeout_error_amended:
  "(truthy_str message \<longrightarrow> withTimeout Timer ms message = Inl (Error (the message)))
   \<and> (\<not> truthy_str message \<longrightarrow> withTimeout Timer ms message = Inl (Error (timed_out_msg ms)))
   \<and> (\<exists>e. withTimeout Timer ms message = withTimeout (Operation (Rejected e)) ms message)
   \<and> withTimeout (Operation (Rejected e)) ms message = Inl e
   \<and> withTimeout (Operation (Fulfilled v)) ms message = Inr v"
  by simp

theorem timeout_error_amended_witness:
  "truthy_str (Some ''boom'')
   \<and> (withTimeout Timer 50 (Some ''boom'') :: js_error + unit) = Inl (Error ''boom'')
   \<and> \<not> truthy_str None \<and> \<not> truthy_str (Some '''')
   \<and> (withTimeout Timer 50 None :: js_error + unit)
        = Inl (Error ''Operation timed out after 50ms'')
   \<and> (withTimeout Timer 50 (Some '''') :: js_error + unit)
        = Inl (Error ''Operation timed out after 50ms'')"
proof -
  have h: "truthy_str (Some ''boom'')" "\<not> truthy_str None" "\<not> truthy_str (Some '''')"
    by simp_all
  from h timed_out_50
    timeout_error_amended [of "Some ''boom''" 50 "Error ''remote''" "()"]
    timeout_error_amended [of None 50 "Error ''remote''" "()"]
    timeout_error_amended [of "Some ''''" 50 "Error ''remote''" "()"]
  show ?thesis by simp
qed

section \<open>Rate limit headers\<close>

lemma parse_examples:
  "parseInt10 ''4892'' = Num 4892" "parseInt10 ''5000'' = Num 5000"
  "parseInt10 ''1767006000'' = Num 1767006000"
  by (simp_all add: parseInt10_def is_white_def is_digit_def digits_value_def to_number_def)

text \<open>
  Against C8 as worded. With all three headers present, the first one with the empty
  string as value, the parser returns no data.
\<close>

theorem rate_limit_counterexample:
  "example_headers ''x-ratelimit-limit'' = Some ''5000''
   \<and> example_headers ''x-ratelimit-reset'' = Some ''1767006000''
   \<and> (example_headers(''x-ratelimit-remaining'' \<mapsto> '''')) ''x-ratelimit-remaining'' = Some ''''
   \<and> parseRateLimitHeaders (example_headers(''x-ratelimit-remaining'' \<mapsto> '''')) = None"
  by (simp add: parseRateLimitHeaders_def example_headers_def)

text \<open>
  C8, amended. \<open>parseRateLimitHeaders\<close> returns no data whenever one of the three
  headers is absent or is the empty string. Otherwise it returns a snapshot whose
  \<open>remaining\<close> and \<open>limit\<close> are \<^verbatim>\<open>parseInt\<close> of the header values in base ten, and
  whose reset time is the date at \<^verbatim>\<open>parseInt\<close> of the reset header times 1000 milliseconds.
  The values 4892 and 5000 come back as these integers.
\<close>

theorem rate_limit_amended:
  "(headers ''x-ratelimit-remaining'' = None \<or> headers ''x-ratelimit-limit'' = None
      \<or> headers ''x-ratelimit-reset'' = None \<longrightarrow> parseRateLimitHeaders headers = None)
   \<and> (headers ''x-ratelimit-remaining'' = Some [] \<or> headers ''x-ratelimit-limit'' = Some []
      \<or> headers ''x-ratelimit-reset'' = Some [] \<longrightarrow> parseRateLimitHeaders headers = None)
   \<and> (headers ''x-ratelimit-remaining'' = Some r \<and> r \<noteq> []
      \<and> headers ''x-ratelimit-limit'' = Some l \<and> l \<noteq> []
      \<and> headers ''x-ratelimit-reset'' = Some t \<and> t \<noteq> []
      \<longrightarrow> parseRateLimitHeaders headers
            = Some \<lparr>remaining = parseInt10 r, limit = parseInt10 l,
                    reset_at = new_Date (times_1000 (parseInt10 t))\<rparr>)"
  by (auto simp: parseRateLimitHeaders_def)

theorem rate_limit_amended_witness:
  "example_headers ''x-ratelimit-remaining'' = Some ''4892'' \<and> ''4892'' \<noteq> []
   \<and> example_headers ''x-ratelimit-limit'' = Some ''5000'' \<and> ''5000'' \<noteq> []
   \<and> example_headers ''x-ratelimit-reset'' = Some ''1767006000'' \<and> ''1767006000'' \<noteq> []
   \<and> parseRateLimitHeaders example_headers
        = Some \<lparr>remaining = Num 4892, limit = Num 5000, reset_at = DateMs 1767006000000\<rparr>
   \<and> (example_headers(''x-ratelimit-remaining'' := None)) ''x-ratelimit-remaining'' = None
   \<and> parseRateLimitHeaders (example_headers(''x-ratelimit-remaining'' := None)) = None"
proof -
  have h: "example_headers ''x-ratelimit-remaining'' = Some ''4892''"
    "example_headers ''x-ratelimit-limit'' = Some ''5000''"
    "example_headers ''x-ratelimit-reset'' = Some ''1767006000''"
    by (simp_all add: example_headers_def)
  have d: "new_Date (times_1000 (Num 1767006000)) = DateMs 1767006000000"
    by (simp add: to_number_def)
  from h d parse_examples
    rate_limit_amended [of example_headers "''4892''" "''5000''" "''1767006000''"]
    rate_limit_amended [of "example_headers(''x-ratelimit-remaining'' := None)"]
  show ?thesis by simp
qed

end
